theory Spec2Isabelle
  imports Main
begin

section \<open>Effective request meta-data (getters.ts, getEffectiveFinalMetaData)\<close>

subsection \<open>Data model\<close>

text \<open>
  A header or parameter of a request is an object with the fields \<open>key\<close>, \<open>value\<close> and
  \<open>active\<close>. The object built by the \<open>A.map\<close> step of \<open>getEffectiveFinalMetaData\<close> has the
  same three fields, with an \<open>Either\<close> in \<open>key\<close> and \<open>value\<close>; one record, polymorphic in
  the two field types, serves for both. \<open>HoppRESTHeader\<close> and \<open>HoppRESTParam\<close> have the same
  shape.
\<close>

record ('k, 'v) MetaData =
  key :: 'k
  "value" :: 'v
  active :: bool

type_synonym HoppRESTHeader = "(string, string) MetaData"

type_synonym HoppRESTParam = "(string, string) MetaData"

text \<open>
  fp-ts \<open>Either\<close>: \<open>E.left\<close> is \<open>Inl\<close> (the failure), \<open>E.right\<close> is \<open>Inr\<close> (the success).
\<close>

type_synonym 'e ParsedMetaData = "('e + string, 'e + string) MetaData"

text \<open>
  An environment: only \<open>environment.variables\<close> is read, a sequence of key/value bindings.
\<close>

record Environment =
  name :: string
  variables :: "(string \<times> string) list"

text \<open>
  \<open>error({ code, data })\<close> of \<open>../types/errors\<close> builds the error object from its two
  fields; \<open>data\<close> has a different type at each call site.
\<close>

record 'd HoppCLIError =
  code :: string
  data :: 'd

subsection \<open>The fp-ts combinators the function is piped through\<close>

definition isEmpty :: "string \<Rightarrow> bool" where
  \<comment> \<open>\<open>S.isEmpty\<close>: the string has length 0.\<close>
  "isEmpty s = (length s = 0)"

definition isRight :: "'e + 'a \<Rightarrow> bool" where
  \<comment> \<open>\<open>E.isRight\<close>\<close>
  "isRight x = (case x of Inl _ \<Rightarrow> False | Inr _ \<Rightarrow> True)"

definition fromPredicate :: "('a \<Rightarrow> bool) \<Rightarrow> ('a \<Rightarrow> 'e) \<Rightarrow> 'a \<Rightarrow> 'e + 'a" where
  \<comment> \<open>\<open>E.fromPredicate(predicate, onFalse)\<close>\<close>
  "fromPredicate predicate onFalse a = (if predicate a then Inr a else Inl (onFalse a))"

definition mapE :: "('a \<Rightarrow> 'b) \<Rightarrow> 'e + 'a \<Rightarrow> 'e + 'b" where
  \<comment> \<open>\<open>E.map\<close>: a left passes through unchanged.\<close>
  "mapE f x = (case x of Inl e \<Rightarrow> Inl e | Inr a \<Rightarrow> Inr (f a))"

subsection \<open>getEffectiveFinalMetaData\<close>

text \<open>
  \<open>parseTemplateStringE\<close> is imported from \<open>@hoppscotch/data\<close>; the function takes it here
  as its first argument \<open>parseE\<close>, so every theorem below holds for any template engine.
  The stages are those of the \<open>pipe\<close>, in its order: \<open>A.filter\<close>, \<open>A.map\<close>,
  \<open>E.fromPredicate\<close> over \<open>A.every\<close>, \<open>E.map\<close> over \<open>A.filterMap\<close>.
\<close>

definition selectActive :: "HoppRESTHeader list \<Rightarrow> HoppRESTHeader list" where
  \<comment> \<open>line 67: selecting only non-empty and active pairs\<close>
  "selectActive metaData = filter (\<lambda>e. \<not> isEmpty (key e) \<and> active e) metaData"

definition parseEntry ::
  "(string \<Rightarrow> (string \<times> string) list \<Rightarrow> 'e + string) \<Rightarrow> Environment \<Rightarrow>
   HoppRESTHeader \<Rightarrow> 'e ParsedMetaData" where
  \<comment> \<open>lines 68-72\<close>
  "parseEntry parseE environment e =
     \<lparr>key = parseE (key e) (variables environment),
      value = parseE (value e) (variables environment),
      active = True\<rparr>"

definition bothRight :: "'e ParsedMetaData \<Rightarrow> bool" where
  \<comment> \<open>the test of lines 78 and 86\<close>
  "bothRight p = (isRight (key p) \<and> isRight (value p))"

definition rightPair :: "'e ParsedMetaData \<Rightarrow> HoppRESTHeader option" where
  \<comment> \<open>lines 85-89\<close>
  "rightPair p =
     (case key p of
        Inl _ \<Rightarrow> None
      | Inr k \<Rightarrow>
          (case value p of
             Inl _ \<Rightarrow> None
           | Inr v \<Rightarrow> Some \<lparr>key = k, value = v, active = True\<rparr>))"

definition getEffectiveFinalMetaData ::
  "(string \<Rightarrow> (string \<times> string) list \<Rightarrow> 'e + string) \<Rightarrow> HoppRESTHeader list \<Rightarrow>
   Environment \<Rightarrow> ('e ParsedMetaData list) HoppCLIError + HoppRESTHeader list" where
  "getEffectiveFinalMetaData parseE metaData environment =
     mapE (List.map_filter rightPair)
       (fromPredicate (list_all bothRight)
          (\<lambda>reason. \<lparr>code = ''PARSING_ERROR'', data = reason\<rparr>)
          (map (parseEntry parseE environment) (selectActive metaData)))"

text \<open>
  Modelled from the spec: the template engine \<open>parseTemplateStringE\<close> of
  \<open>@hoppscotch/data\<close>, whose code is not in \<open>getters.ts\<close>. The spec fixes its contract
  (a deterministic function from a string and the variables to a success or a failure)
  and two scenarios: \<open>{{token}}\<close> resolves to the value bound to \<open>token\<close>, and
  \<open>{{missing}}\<close> fails when nothing binds \<open>missing\<close>. This instance does that for a
  string that is one placeholder and returns any other string unchanged. It is used only
  to run \<open>getEffectiveFinalMetaData\<close> at concrete inputs.
\<close>

definition parseTemplateStringE :: "string \<Rightarrow> (string \<times> string) list \<Rightarrow> string + string" where
  "parseTemplateStringE str vars =
     (if 4 \<le> length str \<and> take 2 str = ''{{'' \<and> drop (length str - 2) str = ''}}''
      then (case map_of vars (take (length str - 4) (drop 2 str)) of
              None \<Rightarrow> Inl str
            | Some v \<Rightarrow> Inr v)
      else Inr str)"

section \<open>Acquiring a resource (getters.ts, getResourceContents)\<close>

subsection \<open>JavaScript strings and optional values\<close>

fun startsWith :: "string \<Rightarrow> string \<Rightarrow> bool" where
  "startsWith s [] = True"
| "startsWith [] (p # ps) = False"
| "startsWith (c # cs) (p # ps) = (c = p \<and> startsWith cs ps)"

fun includesStr :: "string \<Rightarrow> string \<Rightarrow> bool" where
  \<comment> \<open>\<open>s.includes(search)\<close>: \<open>search\<close> occurs in \<open>s\<close> at some position\<close>
  "includesStr [] search = (search = [])"
| "includesStr (c # cs) search = (startsWith (c # cs) search \<or> includesStr cs search)"

definition endsWith :: "string \<Rightarrow> string \<Rightarrow> bool" where
  \<comment> \<open>\<open>s.endsWith(search)\<close>\<close>
  "endsWith s search = startsWith (rev s) (rev search)"

text \<open>
  An optional string parameter (\<open>accessToken?: string\<close>, \<open>serverUrl?: string\<close>) is a
  \<open>string option\<close>, \<open>None\<close> for \<open>undefined\<close>. In a condition JavaScript reads \<open>undefined\<close>
  and the empty string as false and every other string as true.
\<close>

definition truthy :: "string option \<Rightarrow> bool" where
  "truthy s = (case s of None \<Rightarrow> False | Some t \<Rightarrow> t \<noteq> [])"

definition orElse :: "string option \<Rightarrow> string \<Rightarrow> string" where
  \<comment> \<open>\<open>s || d\<close> with a non-empty string \<open>d\<close>\<close>
  "orElse s d = (case s of None \<Rightarrow> d | Some t \<Rightarrow> if t = [] then d else t)"

definition interpolate :: "string option \<Rightarrow> string" where
  \<comment> \<open>an optional string inside a template literal\<close>
  "interpolate s = (case s of None \<Rightarrow> ''undefined'' | Some t \<Rightarrow> t)"

subsection \<open>What the catch block reads of a caught error\<close>

text \<open>
  The catch block casts whatever was thrown to an \<open>AxiosError\<close> whose payload type is
  \<open>{ reason?: any; message: string; error: string; statusCode: number }\<close> and reads four
  things of it: \<open>code\<close>, \<open>message\<close>, \<open>response?.status\<close> and
  \<open>response?.data?.reason\<close>. The reason codes of the access-token endpoint are
  strings, so \<open>reason\<close> is an optional string here. The fields \<open>code\<close> and
  \<open>response.data\<close> are named \<open>errCode\<close> and \<open>respData\<close>, since \<open>code\<close> and \<open>data\<close> are the
  fields of the error the function throws.
\<close>

record ErrorPayload =
  reason :: "string option"

record AxiosResponse =
  status :: int
  respData :: "ErrorPayload option"

record AxiosError =
  errCode :: "string option"
  message :: string
  response :: "AxiosResponse option"

definition newError :: "string \<Rightarrow> AxiosError" where
  \<comment> \<open>\<open>new Error(msg)\<close>: neither a code nor a response\<close>
  "newError msg = \<lparr>errCode = None, message = msg, response = None\<rparr>"

definition typeErrorOfUndefined :: AxiosError where
  \<comment> \<open>the TypeError of calling \<open>.includes\<close> on \<open>undefined\<close>\<close>
  "typeErrorOfUndefined = newError ''Cannot read properties of undefined''"

subsection \<open>The world outside the function\<close>

datatype ResourceType = CollectionResource | EnvironmentResource

text \<open>
  \<open>axios.get\<close> either resolves with \<open>{ data, headers }\<close> or rejects with an error;
  \<open>headers\<close> maps a header name to its value, if the response has that header.
\<close>

datatype 'raw AxiosResult =
  Fulfilled 'raw "string \<Rightarrow> string option"
| Rejected AxiosError

text \<open>
  The function calls \<open>fs.access\<close>, \<open>axios.get\<close>, \<open>readJsonFile\<close> and the two
  transformers of \<open>./workspace-access\<close>. Each is a field of the world the function runs
  in: \<open>access p\<close> says whether \<open>fs.access(p)\<close> resolves; \<open>readJsonFile\<close> returns the
  document or the error it throws; a transformer returns the document, or what it
  throws on a payload it cannot read (thrown inside the try block, so caught there).
\<close>

record ('raw, 'doc, 'err) World =
  access :: "string \<Rightarrow> bool"
  get :: "string \<Rightarrow> (string \<times> string) list \<Rightarrow> 'raw AxiosResult"
  readJsonFile :: "string \<Rightarrow> bool \<Rightarrow> 'err + 'doc"
  transformWorkspaceCollection :: "'raw \<Rightarrow> AxiosError + 'doc"
  transformWorkspaceEnvironment :: "'raw \<Rightarrow> AxiosError + 'doc"

text \<open>The calls the function makes to the outside, in the order it makes them.\<close>

datatype Call =
  FsAccess string
| AxiosGet string "(string \<times> string) list"
| ReadJsonFile string bool

fun isAxiosGet :: "Call \<Rightarrow> bool" where
  "isAxiosGet (AxiosGet url headers) = True"
| "isAxiosGet (FsAccess p) = False"
| "isAxiosGet (ReadJsonFile p known) = False"

text \<open>
  What the function throws: an error of its own (\<open>data\<close> is \<open>serverUrl\<close>, \<open>accessToken\<close>
  or \<open>pathOrId\<close>, so an optional string), or the error of \<open>readJsonFile\<close>.
\<close>

datatype 'err Thrown =
  CLIError "(string option) HoppCLIError"
| ReaderError 'err

subsection \<open>getResourceContents\<close>

definition requestUrl :: "string option \<Rightarrow> ResourceType \<Rightarrow> string \<Rightarrow> string" where
  \<comment> \<open>lines 172-178\<close>
  "requestUrl serverUrl resourceType pathOrId =
     (let hostname = orElse serverUrl ''https://api.hoppscotch.io'';
          separator = (if endsWith hostname ''/'' then [] else ''/'');
          resourcePath =
            (if resourceType = CollectionResource then ''collection'' else ''environment'')
      in hostname @ separator @ ''v1/access-tokens/'' @ resourcePath @ ''/'' @ pathOrId)"

definition requestHeaders :: "string option \<Rightarrow> (string \<times> string) list" where
  \<comment> \<open>lines 181-183\<close>
  "requestHeaders accessToken = [(''Authorization'', ''Bearer '' @ interpolate accessToken)]"

definition tryRemote ::
  "('raw, 'doc, 'err) World \<Rightarrow> string \<Rightarrow> string option \<Rightarrow> string option \<Rightarrow> ResourceType \<Rightarrow>
   AxiosError + 'doc" where
  \<comment> \<open>the try block, lines 171-193: \<open>Inl\<close> is what reaches the catch block\<close>
  "tryRemote w pathOrId accessToken serverUrl resourceType =
     (case get w (requestUrl serverUrl resourceType pathOrId) (requestHeaders accessToken) of
        Rejected err \<Rightarrow> Inl err
      | Fulfilled rawData headers \<Rightarrow>
          (case headers ''content-type'' of
             None \<Rightarrow> Inl typeErrorOfUndefined
           | Some contentType \<Rightarrow>
               if \<not> includesStr contentType ''application/json''
               then Inl (newError ''INVALID_CONTENT_TYPE'')
               else if resourceType = CollectionResource
                    then transformWorkspaceCollection w rawData
                    else transformWorkspaceEnvironment w rawData))"

definition responseStatus :: "AxiosError \<Rightarrow> int option" where
  \<comment> \<open>\<open>axiosErr.response?.status\<close>\<close>
  "responseStatus err = map_option status (response err)"

definition responseReason :: "AxiosError \<Rightarrow> string option" where
  \<comment> \<open>\<open>axiosErr.response?.data?.reason\<close>\<close>
  "responseReason err = Option.bind (response err) (\<lambda>r. Option.bind (respData r) reason)"

definition catchRemote ::
  "AxiosError \<Rightarrow> string \<Rightarrow> string option \<Rightarrow> string option \<Rightarrow> (string option) HoppCLIError option" where
  \<comment> \<open>the catch block, lines 194-225: \<open>Some e\<close> when it throws \<open>e\<close>, \<open>None\<close> when it ends
      without throwing\<close>
  "catchRemote axiosErr pathOrId accessToken serverUrl =
     (if errCode axiosErr = Some ''ECONNREFUSED''
      then Some \<lparr>code = ''SERVER_CONNECTION_REFUSED'', data = serverUrl\<rparr>
      else if message axiosErr = ''INVALID_CONTENT_TYPE'' \<or>
              errCode axiosErr = Some ''ERR_INVALID_URL'' \<or>
              errCode axiosErr = Some ''ENOTFOUND'' \<or>
              responseStatus axiosErr = Some 404
      then Some \<lparr>code = ''INVALID_SERVER_URL'', data = serverUrl\<rparr>
      else (case responseReason axiosErr of
              None \<Rightarrow> None
            | Some errReason \<Rightarrow>
                if errReason \<noteq> []
                then Some \<lparr>code = errReason,
                           data = (if errReason \<in> set [''TOKEN_EXPIRED'', ''TOKEN_INVALID'']
                                   then accessToken else Some pathOrId)\<rparr>
                else None))"

definition readLocal ::
  "('raw, 'doc, 'err) World \<Rightarrow> string \<Rightarrow> bool \<Rightarrow> Call list \<Rightarrow> Call list \<times> ('err Thrown + 'doc)" where
  \<comment> \<open>lines 229-233, reached with \<open>contents === null\<close>\<close>
  "readLocal w pathOrId fileExistsInPath calls =
     (calls @ [ReadJsonFile pathOrId fileExistsInPath],
      case readJsonFile w pathOrId fileExistsInPath of
        Inl e \<Rightarrow> Inl (ReaderError e)
      | Inr contents \<Rightarrow> Inr contents)"

definition getResourceContents ::
  "('raw, 'doc, 'err) World \<Rightarrow> string \<Rightarrow> string option \<Rightarrow> string option \<Rightarrow> ResourceType \<Rightarrow>
   Call list \<times> ('err Thrown + 'doc)" where
  "getResourceContents w pathOrId accessToken serverUrl resourceType =
     (let fileExistsInPath = access w pathOrId;
          probed = [FsAccess pathOrId]
      in if truthy accessToken \<and> \<not> fileExistsInPath
         then (let requested =
                     probed @ [AxiosGet (requestUrl serverUrl resourceType pathOrId)
                                        (requestHeaders accessToken)]
               in case tryRemote w pathOrId accessToken serverUrl resourceType of
                    Inr contents \<Rightarrow> (requested, Inr contents)
                  | Inl err \<Rightarrow>
                      (case catchRemote err pathOrId accessToken serverUrl of
                         Some e \<Rightarrow> (requested, Inl (CLIError e))
                       | None \<Rightarrow> readLocal w pathOrId fileExistsInPath requested))
         else readLocal w pathOrId fileExistsInPath probed)"

section \<open>Theorems\<close>

subsection \<open>JavaScript strings\<close>

lemma startsWith_iff: "startsWith s p \<longleftrightarrow> (\<exists>b. s = p @ b)"
  by (induction s p rule: startsWith.induct) auto

lemma includesStr_iff: "includesStr s p \<longleftrightarrow> (\<exists>a b. s = a @ p @ b)"
proof (induction s)
  case Nil
  then show ?case by auto
next
  case (Cons c cs)
  show ?case
  proof
    assume "includesStr (c # cs) p"
    then consider "startsWith (c # cs) p" | "includesStr cs p" by auto
    then show "\<exists>a b. c # cs = a @ p @ b"
    proof cases
      case 1
      then obtain b where "c # cs = p @ b" by (auto simp add: startsWith_iff)
      then have "c # cs = [] @ p @ b" by simp
      then show ?thesis by blast
    next
      case 2
      then obtain a b where "cs = a @ p @ b" using Cons.IH by blast
      then have "c # cs = (c # a) @ p @ b" by simp
      then show ?thesis by blast
    qed
  next
    assume "\<exists>a b. c # cs = a @ p @ b"
    then obtain a b where ab: "c # cs = a @ p @ b" by blast
    show "includesStr (c # cs) p"
    proof (cases a)
      case Nil
      with ab have "startsWith (c # cs) p" by (auto simp add: startsWith_iff)
      then show ?thesis by simp
    next
      case (Cons a0 as)
      with ab have "cs = as @ p @ b" by simp
      then have "includesStr cs p" using Cons.IH by blast
      then show ?thesis by simp
    qed
  qed
qed

lemma endsWith_iff: "endsWith s p \<longleftrightarrow> (\<exists>a. s = a @ p)"
proof
  assume "endsWith s p"
  then obtain b where "rev s = rev p @ b" by (auto simp add: endsWith_def startsWith_iff)
  then have "s = rev b @ p" by (metis rev_append rev_rev_ident)
  then show "\<exists>a. s = a @ p" by blast
next
  assume "\<exists>a. s = a @ p"
  then obtain a where "s = a @ p" by blast
  then have "rev s = rev p @ rev a" by simp
  then show "endsWith s p" by (auto simp add: endsWith_def startsWith_iff)
qed

subsection \<open>Stages of the pipe\<close>

lemma rightPair_bothRight:
  "bothRight p \<Longrightarrow>
   rightPair p = Some \<lparr>key = projr (key p), value = projr (value p), active = True\<rparr>"
  by (cases "key p"; cases "value p") (simp_all add: bothRight_def rightPair_def isRight_def)

lemma map_filter_rightPair:
  "list_all bothRight ps \<Longrightarrow>
   List.map_filter rightPair ps =
     map (\<lambda>p. \<lparr>key = projr (key p), value = projr (value p), active = True\<rparr>) ps"
  by (induction ps) (simp_all add: rightPair_bothRight)

lemma getEffectiveFinalMetaData_left:
  "\<not> list_all bothRight (map (parseEntry parseE environment) (selectActive metaData)) \<Longrightarrow>
   getEffectiveFinalMetaData parseE metaData environment =
     Inl \<lparr>code = ''PARSING_ERROR'',
          data = map (parseEntry parseE environment) (selectActive metaData)\<rparr>"
  by (simp add: getEffectiveFinalMetaData_def fromPredicate_def mapE_def)

lemma getEffectiveFinalMetaData_right:
  "list_all bothRight (map (parseEntry parseE environment) (selectActive metaData)) \<Longrightarrow>
   getEffectiveFinalMetaData parseE metaData environment =
     Inr (map (\<lambda>p. \<lparr>key = projr (key p), value = projr (value p), active = True\<rparr>)
            (map (parseEntry parseE environment) (selectActive metaData)))"
  by (simp add: getEffectiveFinalMetaData_def fromPredicate_def mapE_def map_filter_rightPair)

lemma selectActive_set:
  "e \<in> set (selectActive metaData) \<longleftrightarrow> e \<in> set metaData \<and> key e \<noteq> [] \<and> active e"
  by (auto simp add: selectActive_def isEmpty_def)

lemma parsed_forms:
  "map (parseEntry parseE environment) (selectActive metaData) =
   map (\<lambda>x. \<lparr>key = parseE (key x) (variables environment),
               value = parseE (value x) (variables environment), active = True\<rparr>)
       (filter (\<lambda>x. key x \<noteq> [] \<and> active x) metaData)"
  by (simp add: selectActive_def isEmpty_def parseEntry_def)

lemma not_all_bothRight:
  assumes "e \<in> set metaData" "active e" "key e \<noteq> []"
      and "\<not> isRight (parseE (key e) (variables environment)) \<or>
           \<not> isRight (parseE (value e) (variables environment))"
  shows "\<not> list_all bothRight (map (parseEntry parseE environment) (selectActive metaData))"
proof -
  from assms(1-3) have "e \<in> set (selectActive metaData)" by (simp add: selectActive_set)
  moreover from assms(4) have "\<not> bothRight (parseEntry parseE environment e)"
    by (auto simp add: bothRight_def parseEntry_def)
  ultimately show ?thesis by (auto simp add: list_all_iff)
qed

subsection \<open>Claims about getEffectiveFinalMetaData\<close>

text \<open>
  C1. For every meta-data list, environment and template engine: if some active entry
  with a non-empty key has a key substitution or a value substitution that fails, the
  function returns a left whose code is \<open>PARSING_ERROR\<close> and whose data is the whole list
  of per-entry outcomes, one for each active entry with a non-empty key, in their order,
  the successful ones included. It never returns a list of resolved pairs then.
\<close>

theorem C1_any_failure_fails_whole_list:
  assumes "e \<in> set metaData" "active e" "key e \<noteq> []"
      and "\<not> isRight (parseE (key e) (variables environment)) \<or>
           \<not> isRight (parseE (value e) (variables environment))"
  shows "getEffectiveFinalMetaData parseE metaData environment =
     Inl \<lparr>code = ''PARSING_ERROR'',
          data = map (\<lambda>x. \<lparr>key = parseE (key x) (variables environment),
                          value = parseE (value x) (variables environment),
                          active = True\<rparr>)
                     (filter (\<lambda>x. key x \<noteq> [] \<and> active x) metaData)\<rparr>"
proof -
  have "\<not> list_all bothRight (map (parseEntry parseE environment) (selectActive metaData))"
    using assms by (rule not_all_bothRight)
  then have "getEffectiveFinalMetaData parseE metaData environment =
     Inl \<lparr>code = ''PARSING_ERROR'',
          data = map (parseEntry parseE environment) (selectActive metaData)\<rparr>"
    by (rule getEffectiveFinalMetaData_left)
  then show ?thesis by (simp only: parsed_forms)
qed

text \<open>
  Two active entries, the second with an unbound placeholder: the failure carries the
  outcome of both.
\<close>

theorem C1_witness:
  "getEffectiveFinalMetaData parseTemplateStringE
     [\<lparr>key = ''Accept'', value = ''text/plain'', active = True\<rparr>,
      \<lparr>key = ''X'', value = ''{{missing}}'', active = True\<rparr>]
     \<lparr>name = ''empty'', variables = []\<rparr> =
   Inl \<lparr>code = ''PARSING_ERROR'',
        data = [\<lparr>key = Inr ''Accept'', value = Inr ''text/plain'', active = True\<rparr>,
                \<lparr>key = Inr ''X'', value = Inl ''{{missing}}'', active = True\<rparr>]\<rparr>"
  using C1_any_failure_fails_whole_list
    [of "\<lparr>key = ''X'', value = ''{{missing}}'', active = True\<rparr>"
        "[\<lparr>key = ''Accept'', value = ''text/plain'', active = True\<rparr>,
          \<lparr>key = ''X'', value = ''{{missing}}'', active = True\<rparr>]"
        parseTemplateStringE "\<lparr>name = ''empty'', variables = []\<rparr>"]
  by (simp add: parseTemplateStringE_def isRight_def)

lemma selectActive_filter:
  "selectActive (filter (\<lambda>x. key x \<noteq> [] \<and> active x) metaData) = selectActive metaData"
  by (simp add: selectActive_def isEmpty_def conj_commute)

lemma rewrap_rightPair:
  "list_all bothRight ps \<Longrightarrow>
   map (\<lambda>r. \<lparr>key = Inr (key r), value = Inr (value r), active = active r\<rparr>)
       (List.map_filter rightPair ps) = map (\<lambda>p. p\<lparr>active := True\<rparr>) ps"
proof (induction ps)
  case Nil
  then show ?case by (simp add: List.map_filter_simps)
next
  case (Cons p ps)
  then have "bothRight p" by simp
  then obtain k v where "key p = Inr k" "value p = Inr v"
    by (cases "key p"; cases "value p") (simp_all add: bothRight_def isRight_def)
  then have "rightPair p = Some \<lparr>key = k, value = v, active = True\<rparr>"
    by (simp add: rightPair_def)
  moreover have "p\<lparr>active := True\<rparr> = \<lparr>key = Inr k, value = Inr v, active = True\<rparr>"
    using \<open>key p = Inr k\<close> \<open>value p = Inr v\<close> by (cases p) simp
  ultimately show ?case using Cons by (simp add: List.map_filter_simps)
qed

text \<open>
  C3. For every meta-data list and environment, entries with \<open>active = false\<close> or an empty
  key are never considered: the result is the result on the list without them; the
  outcome list carried by a \<open>PARSING_ERROR\<close> is, position by position, the outcome of the
  remaining entries; and a successful output, each field wrapped as a success, is that
  same list of outcomes. So nothing in either list comes from an excluded entry.
\<close>

theorem C3_excluded_entries_never_considered:
  "getEffectiveFinalMetaData parseE metaData environment =
     getEffectiveFinalMetaData parseE
       (filter (\<lambda>x. key x \<noteq> [] \<and> active x) metaData) environment
   \<and> (case getEffectiveFinalMetaData parseE metaData environment of
        Inl err \<Rightarrow>
          code err = ''PARSING_ERROR'' \<and>
          data err =
            map (\<lambda>x. \<lparr>key = parseE (key x) (variables environment),
                        value = parseE (value x) (variables environment),
                        active = True\<rparr>)
                (filter (\<lambda>x. key x \<noteq> [] \<and> active x) metaData)
      | Inr out \<Rightarrow>
          map (\<lambda>r. \<lparr>key = Inr (key r), value = Inr (value r), active = active r\<rparr>) out =
            map (\<lambda>x. \<lparr>key = parseE (key x) (variables environment),
                        value = parseE (value x) (variables environment),
                        active = True\<rparr>)
                (filter (\<lambda>x. key x \<noteq> [] \<and> active x) metaData))"
proof (intro conjI)
  show "getEffectiveFinalMetaData parseE metaData environment =
     getEffectiveFinalMetaData parseE
       (filter (\<lambda>x. key x \<noteq> [] \<and> active x) metaData) environment"
    by (simp add: getEffectiveFinalMetaData_def selectActive_filter)
next
  let ?ps = "map (parseEntry parseE environment) (selectActive metaData)"
  have act: "map (\<lambda>p. p\<lparr>active := True\<rparr>) ?ps = ?ps"
    by (simp add: parseEntry_def)
  show "case getEffectiveFinalMetaData parseE metaData environment of
        Inl err \<Rightarrow>
          code err = ''PARSING_ERROR'' \<and>
          data err =
            map (\<lambda>x. \<lparr>key = parseE (key x) (variables environment),
                        value = parseE (value x) (variables environment),
                        active = True\<rparr>)
                (filter (\<lambda>x. key x \<noteq> [] \<and> active x) metaData)
      | Inr out \<Rightarrow>
          map (\<lambda>r. \<lparr>key = Inr (key r), value = Inr (value r), active = active r\<rparr>) out =
            map (\<lambda>x. \<lparr>key = parseE (key x) (variables environment),
                        value = parseE (value x) (variables environment),
                        active = True\<rparr>)
                (filter (\<lambda>x. key x \<noteq> [] \<and> active x) metaData)"
  proof (cases "list_all bothRight ?ps")
    case True
    then have "getEffectiveFinalMetaData parseE metaData environment =
        Inr (List.map_filter rightPair ?ps)"
      by (simp add: getEffectiveFinalMetaData_def fromPredicate_def mapE_def)
    moreover have "map (\<lambda>r. \<lparr>key = Inr (key r), value = Inr (value r), active = active r\<rparr>)
       (List.map_filter rightPair ?ps) = ?ps"
      using rewrap_rightPair [OF True] act by simp
    ultimately show ?thesis by (simp add: parsed_forms)
  next
    case False
    then have "getEffectiveFinalMetaData parseE metaData environment =
        Inl \<lparr>code = ''PARSING_ERROR'', data = ?ps\<rparr>"
      by (rule getEffectiveFinalMetaData_left)
    then show ?thesis by (simp add: parsed_forms)
  qed
qed

text \<open>
  An inactive entry and an entry with an empty key, both with an unbound placeholder,
  around one active entry: the result is that of the active entry alone.
\<close>

theorem C3_witness:
  "getEffectiveFinalMetaData parseTemplateStringE
     [\<lparr>key = ''Off'', value = ''{{missing}}'', active = False\<rparr>,
      \<lparr>key = ''X'', value = ''{{token}}'', active = True\<rparr>,
      \<lparr>key = [], value = ''{{missing}}'', active = True\<rparr>]
     \<lparr>name = ''env'', variables = [(''token'', ''abc'')]\<rparr> =
   Inr [\<lparr>key = ''X'', value = ''abc'', active = True\<rparr>]"
  using C3_excluded_entries_never_considered
    [of parseTemplateStringE
        "[\<lparr>key = ''Off'', value = ''{{missing}}'', active = False\<rparr>,
          \<lparr>key = ''X'', value = ''{{token}}'', active = True\<rparr>,
          \<lparr>key = [], value = ''{{missing}}'', active = True\<rparr>]"
        "\<lparr>name = ''env'', variables = [(''token'', ''abc'')]\<rparr>"]
  by (simp add: getEffectiveFinalMetaData_def selectActive_def isEmpty_def parseEntry_def
      fromPredicate_def mapE_def bothRight_def isRight_def rightPair_def
      parseTemplateStringE_def List.map_filter_simps)

text \<open>
  C4. For every meta-data list and environment in which the key and the value
  substitution of every active entry with a non-empty key succeed, the function returns
  the substituted key/value pairs of these entries, in the order they have in the input,
  each with \<open>active = true\<close>.
\<close>

theorem C4_success_in_order:
  assumes "\<forall>e \<in> set metaData. active e \<and> key e \<noteq> [] \<longrightarrow>
             isRight (parseE (key e) (variables environment)) \<and>
             isRight (parseE (value e) (variables environment))"
  shows "getEffectiveFinalMetaData parseE metaData environment =
     Inr (map (\<lambda>e. \<lparr>key = projr (parseE (key e) (variables environment)),
                      value = projr (parseE (value e) (variables environment)),
                      active = True\<rparr>)
              (filter (\<lambda>e. key e \<noteq> [] \<and> active e) metaData))"
proof -
  have "list_all bothRight (map (parseEntry parseE environment) (selectActive metaData))"
    using assms by (auto simp add: list_all_iff selectActive_set bothRight_def parseEntry_def)
  then have "getEffectiveFinalMetaData parseE metaData environment =
     Inr (map (\<lambda>p. \<lparr>key = projr (key p), value = projr (value p), active = True\<rparr>)
            (map (parseEntry parseE environment) (selectActive metaData)))"
    by (rule getEffectiveFinalMetaData_right)
  then show ?thesis
    by (simp add: selectActive_def isEmpty_def parseEntry_def comp_def)
qed

text \<open>
  Scenario A of the specification, with an inactive entry and a second active entry
  added to show the order.
\<close>

theorem C4_witness:
  "getEffectiveFinalMetaData parseTemplateStringE
     [\<lparr>key = ''X'', value = ''{{token}}'', active = True\<rparr>,
      \<lparr>key = ''Off'', value = ''{{missing}}'', active = False\<rparr>,
      \<lparr>key = ''Accept'', value = ''text/plain'', active = True\<rparr>]
     \<lparr>name = ''env'', variables = [(''token'', ''abc'')]\<rparr> =
   Inr [\<lparr>key = ''X'', value = ''abc'', active = True\<rparr>,
        \<lparr>key = ''Accept'', value = ''text/plain'', active = True\<rparr>]"
  using C4_success_in_order
    [of "[\<lparr>key = ''X'', value = ''{{token}}'', active = True\<rparr>,
          \<lparr>key = ''Off'', value = ''{{missing}}'', active = False\<rparr>,
          \<lparr>key = ''Accept'', value = ''text/plain'', active = True\<rparr>]"
        parseTemplateStringE "\<lparr>name = ''env'', variables = [(''token'', ''abc'')]\<rparr>"]
  by (simp add: parseTemplateStringE_def isRight_def)

subsection \<open>The two branches of getResourceContents\<close>

lemma local_branch:
  "\<not> (truthy accessToken \<and> \<not> access w pathOrId) \<Longrightarrow>
   getResourceContents w pathOrId accessToken serverUrl resourceType =
     readLocal w pathOrId (access w pathOrId) [FsAccess pathOrId]"
  by (auto simp add: getResourceContents_def Let_def)

lemma remote_branch:
  assumes "truthy accessToken" "\<not> access w pathOrId"
  shows "getResourceContents w pathOrId accessToken serverUrl resourceType =
     (case tryRemote w pathOrId accessToken serverUrl resourceType of
        Inr contents \<Rightarrow>
          ([FsAccess pathOrId,
            AxiosGet (requestUrl serverUrl resourceType pathOrId) (requestHeaders accessToken)],
           Inr contents)
      | Inl err \<Rightarrow>
          (case catchRemote err pathOrId accessToken serverUrl of
             Some e \<Rightarrow>
               ([FsAccess pathOrId,
                 AxiosGet (requestUrl serverUrl resourceType pathOrId)
                          (requestHeaders accessToken)],
                Inl (CLIError e))
           | None \<Rightarrow>
               readLocal w pathOrId False
                 [FsAccess pathOrId,
                  AxiosGet (requestUrl serverUrl resourceType pathOrId)
                           (requestHeaders accessToken)]))"
  using assms by (simp add: getResourceContents_def Let_def)

lemma tryRemote_Rejected:
  "get w (requestUrl serverUrl resourceType pathOrId) (requestHeaders accessToken) = Rejected err \<Longrightarrow>
   tryRemote w pathOrId accessToken serverUrl resourceType = Inl err"
  by (simp add: tryRemote_def)

lemma tryRemote_wrong_content_type:
  "get w (requestUrl serverUrl resourceType pathOrId) (requestHeaders accessToken) =
     Fulfilled rawData headers \<Longrightarrow>
   headers ''content-type'' = Some contentType \<Longrightarrow>
   \<not> includesStr contentType ''application/json'' \<Longrightarrow>
   tryRemote w pathOrId accessToken serverUrl resourceType = Inl (newError ''INVALID_CONTENT_TYPE'')"
  by (simp add: tryRemote_def)

lemma catchRemote_refused:
  "errCode err = Some ''ECONNREFUSED'' \<Longrightarrow>
   catchRemote err pathOrId accessToken serverUrl =
     Some \<lparr>code = ''SERVER_CONNECTION_REFUSED'', data = serverUrl\<rparr>"
  by (simp add: catchRemote_def)

lemma catchRemote_invalid_url:
  "errCode err \<noteq> Some ''ECONNREFUSED'' \<Longrightarrow>
   message err = ''INVALID_CONTENT_TYPE'' \<or> errCode err = Some ''ERR_INVALID_URL'' \<or>
   errCode err = Some ''ENOTFOUND'' \<or> responseStatus err = Some 404 \<Longrightarrow>
   catchRemote err pathOrId accessToken serverUrl =
     Some \<lparr>code = ''INVALID_SERVER_URL'', data = serverUrl\<rparr>"
  by (simp add: catchRemote_def)

lemma catchRemote_reason:
  "errCode err \<noteq> Some ''ECONNREFUSED'' \<Longrightarrow>
   message err \<noteq> ''INVALID_CONTENT_TYPE'' \<Longrightarrow> errCode err \<noteq> Some ''ERR_INVALID_URL'' \<Longrightarrow>
   errCode err \<noteq> Some ''ENOTFOUND'' \<Longrightarrow> responseStatus err \<noteq> Some 404 \<Longrightarrow>
   responseReason err = Some errReason \<Longrightarrow> errReason \<noteq> [] \<Longrightarrow>
   catchRemote err pathOrId accessToken serverUrl =
     Some \<lparr>code = errReason,
           data = (if errReason = ''TOKEN_EXPIRED'' \<or> errReason = ''TOKEN_INVALID''
                   then accessToken else Some pathOrId)\<rparr>"
  by (simp add: catchRemote_def)

lemma remote_throws:
  assumes "truthy accessToken" "\<not> access w pathOrId"
      and "tryRemote w pathOrId accessToken serverUrl resourceType = Inl err"
      and "catchRemote err pathOrId accessToken serverUrl = Some e"
  shows "getResourceContents w pathOrId accessToken serverUrl resourceType =
     ([FsAccess pathOrId,
       AxiosGet (requestUrl serverUrl resourceType pathOrId) (requestHeaders accessToken)],
      Inl (CLIError e))"
  using remote_branch [OF assms(1,2), of serverUrl resourceType] assms(3,4) by simp

subsection \<open>Claims about getResourceContents\<close>

text \<open>
  C2. For every \<open>pathOrId\<close>, \<open>accessToken\<close>, \<open>serverUrl\<close> and \<open>resourceType\<close>: if
  \<open>fs.access(pathOrId)\<close> resolves, the function calls \<open>fs.access\<close> and then
  \<open>readJsonFile(pathOrId, true)\<close> and nothing else, so it makes no \<open>axios.get\<close> call,
  whatever the access token is; what it returns or throws is what \<open>readJsonFile\<close> does.
\<close>

theorem C2_local_file_means_no_network_call:
  assumes "access w pathOrId"
  shows "fst (getResourceContents w pathOrId accessToken serverUrl resourceType) =
           [FsAccess pathOrId, ReadJsonFile pathOrId True]
       \<and> filter isAxiosGet (fst (getResourceContents w pathOrId accessToken serverUrl resourceType)) = []
       \<and> snd (getResourceContents w pathOrId accessToken serverUrl resourceType) =
           (case readJsonFile w pathOrId True of
              Inl e \<Rightarrow> Inl (ReaderError e)
            | Inr contents \<Rightarrow> Inr contents)"
proof -
  have "getResourceContents w pathOrId accessToken serverUrl resourceType =
          readLocal w pathOrId True [FsAccess pathOrId]"
    using assms local_branch [of accessToken w pathOrId serverUrl resourceType] by simp
  then show ?thesis by (simp add: readLocal_def)
qed

text \<open>
  Scenario C of the specification: the file exists and a token is given. The server of
  this world refuses every connection, and the document is returned all the same.
\<close>

theorem C2_witness:
  "getResourceContents
     \<lparr>access = (\<lambda>p. p = ''./local.json''),
      get = (\<lambda>url headers. Rejected \<lparr>errCode = Some ''ECONNREFUSED'',
                                       message = ''connect ECONNREFUSED'', response = None\<rparr>),
      readJsonFile = (\<lambda>p known. if known then Inr ''local document'' else Inl ''FILE_NOT_FOUND''),
      transformWorkspaceCollection = Inr,
      transformWorkspaceEnvironment = Inr\<rparr>
     ''./local.json'' (Some ''tok'') None CollectionResource =
   ([FsAccess ''./local.json'', ReadJsonFile ''./local.json'' True], Inr ''local document'')"
  using C2_local_file_means_no_network_call
    [of "\<lparr>access = (\<lambda>p. p = ''./local.json''),
      get = (\<lambda>url headers. Rejected \<lparr>errCode = Some ''ECONNREFUSED'',
                                       message = ''connect ECONNREFUSED'', response = None\<rparr>),
      readJsonFile = (\<lambda>p known. if known then Inr ''local document'' else Inl ''FILE_NOT_FOUND''),
      transformWorkspaceCollection = Inr,
      transformWorkspaceEnvironment = Inr\<rparr>"
      "''./local.json''" "Some ''tok''" None CollectionResource]
  by (simp add: prod_eq_iff)

text \<open>
  C10. With the empty string as \<open>accessToken\<close> the function makes no request: it calls
  \<open>fs.access\<close> and then \<open>readJsonFile\<close> with the result of the probe, also when the probe
  found no file.
\<close>

theorem C10_empty_token_is_no_token:
  "getResourceContents w pathOrId (Some []) serverUrl resourceType =
     ([FsAccess pathOrId, ReadJsonFile pathOrId (access w pathOrId)],
      case readJsonFile w pathOrId (access w pathOrId) of
        Inl e \<Rightarrow> Inl (ReaderError e)
      | Inr contents \<Rightarrow> Inr contents)"
  using local_branch [of "Some []" w pathOrId serverUrl resourceType]
  by (simp add: truthy_def readLocal_def)

text \<open>
  No local file, a server that would answer, and an empty token: only the file is read.
\<close>

theorem C10_witness:
  "getResourceContents
     \<lparr>access = (\<lambda>p. False),
      get = (\<lambda>url headers. Fulfilled ''remote payload''
               [''content-type'' \<mapsto> ''application/json'']),
      readJsonFile = (\<lambda>p known. if known then Inr ''local document'' else Inl ''FILE_NOT_FOUND''),
      transformWorkspaceCollection = Inr,
      transformWorkspaceEnvironment = Inr\<rparr>
     ''abc123'' (Some []) (Some ''http://localhost:3170'') CollectionResource =
   ([FsAccess ''abc123'', ReadJsonFile ''abc123'' False], Inl (ReaderError ''FILE_NOT_FOUND''))"
  using C10_empty_token_is_no_token
    [of "\<lparr>access = (\<lambda>p. False),
      get = (\<lambda>url headers. Fulfilled ''remote payload''
               [''content-type'' \<mapsto> ''application/json'']),
      readJsonFile = (\<lambda>p known. if known then Inr ''local document'' else Inl ''FILE_NOT_FOUND''),
      transformWorkspaceCollection = Inr,
      transformWorkspaceEnvironment = Inr\<rparr>"
      "''abc123''" "Some ''http://localhost:3170''" CollectionResource]
  by simp

text \<open>
  C8. When the remote step runs and fails with an error that is not a refused
  connection, not one of the invalid-server-URL kinds, and has no reason (or an empty
  one), the function throws nothing from the remote step: after \<open>fs.access\<close> and
  \<open>axios.get\<close> it calls \<open>readJsonFile\<close> with \<open>pathOrId\<close> and the result of the probe, and
  what it returns or throws is what \<open>readJsonFile\<close> does. The probe's result is
  \<open>false\<close> here, since the remote step only runs when the probe found no file.
\<close>

theorem C8_unclassified_error_falls_back:
  assumes "truthy accessToken" "\<not> access w pathOrId"
      and "tryRemote w pathOrId accessToken serverUrl resourceType = Inl err"
      and "errCode err \<noteq> Some ''ECONNREFUSED''"
      and "message err \<noteq> ''INVALID_CONTENT_TYPE''"
      and "errCode err \<noteq> Some ''ERR_INVALID_URL''"
      and "errCode err \<noteq> Some ''ENOTFOUND''"
      and "responseStatus err \<noteq> Some 404"
      and "\<not> truthy (responseReason err)"
  shows "getResourceContents w pathOrId accessToken serverUrl resourceType =
     ([FsAccess pathOrId,
       AxiosGet (requestUrl serverUrl resourceType pathOrId) (requestHeaders accessToken),
       ReadJsonFile pathOrId (access w pathOrId)],
      case readJsonFile w pathOrId (access w pathOrId) of
        Inl e \<Rightarrow> Inl (ReaderError e)
      | Inr contents \<Rightarrow> Inr contents)
   \<and> access w pathOrId = False"
proof -
  have "catchRemote err pathOrId accessToken serverUrl = None"
    using assms(4-9) by (simp add: catchRemote_def truthy_def split: option.splits)
  then show ?thesis
    using remote_branch [OF assms(1,2), of serverUrl resourceType] assms(2,3)
    by (simp add: readLocal_def)
qed

text \<open>
  An HTTP 500 answer without a payload, and no local file: the error of the reader is
  what the caller sees.
\<close>

theorem C8_witness:
  "getResourceContents
     \<lparr>access = (\<lambda>p. False),
      get = (\<lambda>url headers. Rejected
               \<lparr>errCode = Some ''ERR_BAD_RESPONSE'',
                message = ''Request failed with status code 500'',
                response = Some \<lparr>status = 500, respData = None\<rparr>\<rparr>),
      readJsonFile = (\<lambda>p known. if known then Inr ''local document'' else Inl ''FILE_NOT_FOUND''),
      transformWorkspaceCollection = Inr,
      transformWorkspaceEnvironment = Inr\<rparr>
     ''abc123'' (Some ''tok'') None CollectionResource =
   ([FsAccess ''abc123'',
     AxiosGet ''https://api.hoppscotch.io/v1/access-tokens/collection/abc123''
              [(''Authorization'', ''Bearer tok'')],
     ReadJsonFile ''abc123'' False],
    Inl (ReaderError ''FILE_NOT_FOUND''))"
  using C8_unclassified_error_falls_back
    [of "Some ''tok''"
        "\<lparr>access = (\<lambda>p. False),
      get = (\<lambda>url headers. Rejected
               \<lparr>errCode = Some ''ERR_BAD_RESPONSE'',
                message = ''Request failed with status code 500'',
                response = Some \<lparr>status = 500, respData = None\<rparr>\<rparr>),
      readJsonFile = (\<lambda>p known. if known then Inr ''local document'' else Inl ''FILE_NOT_FOUND''),
      transformWorkspaceCollection = Inr,
      transformWorkspaceEnvironment = Inr\<rparr>"
        "''abc123''" None CollectionResource
        "\<lparr>errCode = Some ''ERR_BAD_RESPONSE'',
                message = ''Request failed with status code 500'',
                response = Some \<lparr>status = 500, respData = None\<rparr>\<rparr>"]
  by (simp add: truthy_def tryRemote_def responseStatus_def responseReason_def
      requestUrl_def requestHeaders_def orElse_def endsWith_def interpolate_def)

text \<open>
  C5 (amended). When the remote step runs and \<open>axios.get\<close> rejects with an error that is
  not a refused connection and not one of the invalid-server-URL kinds, and whose payload
  has a non-empty \<open>reason\<close>, the function throws an error whose code is that reason; its
  data is the access token when the reason is \<open>TOKEN_EXPIRED\<close> or \<open>TOKEN_INVALID\<close>, and
  \<open>pathOrId\<close> otherwise.
\<close>

theorem C5_structured_reason_becomes_code:
  assumes "truthy accessToken" "\<not> access w pathOrId"
      and "get w (requestUrl serverUrl resourceType pathOrId) (requestHeaders accessToken) =
             Rejected err"
      and "errCode err \<noteq> Some ''ECONNREFUSED''"
      and "message err \<noteq> ''INVALID_CONTENT_TYPE''"
      and "errCode err \<noteq> Some ''ERR_INVALID_URL''"
      and "errCode err \<noteq> Some ''ENOTFOUND''"
      and "responseStatus err \<noteq> Some 404"
      and "responseReason err = Some errReason"
      and "errReason \<noteq> []"
  shows "getResourceContents w pathOrId accessToken serverUrl resourceType =
     ([FsAccess pathOrId,
       AxiosGet (requestUrl serverUrl resourceType pathOrId) (requestHeaders accessToken)],
      Inl (CLIError \<lparr>code = errReason,
                     data = (if errReason = ''TOKEN_EXPIRED'' \<or> errReason = ''TOKEN_INVALID''
                             then accessToken else Some pathOrId)\<rparr>))"
  using assms(1,2) tryRemote_Rejected [OF assms(3)] catchRemote_reason [OF assms(4-10)]
  by (rule remote_throws)

text \<open>
  Scenario E of the specification: the payload's reason is \<open>TOKEN_EXPIRED\<close>.
\<close>

theorem C5_witness:
  "getResourceContents
     \<lparr>access = (\<lambda>p. False),
      get = (\<lambda>url headers. Rejected
               \<lparr>errCode = Some ''ERR_BAD_REQUEST'',
                message = ''Request failed with status code 401'',
                response = Some \<lparr>status = 401,
                                 respData = Some \<lparr>reason = Some ''TOKEN_EXPIRED''\<rparr>\<rparr>\<rparr>),
      readJsonFile = (\<lambda>p known. if known then Inr ''local document'' else Inl ''FILE_NOT_FOUND''),
      transformWorkspaceCollection = Inr,
      transformWorkspaceEnvironment = Inr\<rparr>
     ''abc123'' (Some ''tok'') None CollectionResource =
   ([FsAccess ''abc123'',
     AxiosGet ''https://api.hoppscotch.io/v1/access-tokens/collection/abc123''
              [(''Authorization'', ''Bearer tok'')]],
    Inl (CLIError \<lparr>code = ''TOKEN_EXPIRED'', data = Some ''tok''\<rparr>))"
  using C5_structured_reason_becomes_code
    [of "Some ''tok''"
        "\<lparr>access = (\<lambda>p. False),
      get = (\<lambda>url headers. Rejected
               \<lparr>errCode = Some ''ERR_BAD_REQUEST'',
                message = ''Request failed with status code 401'',
                response = Some \<lparr>status = 401,
                                 respData = Some \<lparr>reason = Some ''TOKEN_EXPIRED''\<rparr>\<rparr>\<rparr>),
      readJsonFile = (\<lambda>p known. if known then Inr ''local document'' else Inl ''FILE_NOT_FOUND''),
      transformWorkspaceCollection = Inr,
      transformWorkspaceEnvironment = Inr\<rparr>"
        "''abc123''" None CollectionResource
        "\<lparr>errCode = Some ''ERR_BAD_REQUEST'',
          message = ''Request failed with status code 401'',
          response = Some \<lparr>status = 401,
                           respData = Some \<lparr>reason = Some ''TOKEN_EXPIRED''\<rparr>\<rparr>\<rparr>"
        "''TOKEN_EXPIRED''"]
  by (simp add: truthy_def responseStatus_def responseReason_def requestUrl_def
      requestHeaders_def orElse_def endsWith_def interpolate_def)

text \<open>
  C5 as stated covers every payload that carries a reason. A payload whose reason is the
  empty string carries one, and the catch block's test \<open>if (errReason)\<close> reads it as
  false: no error with that reason as code is thrown, and the function goes on to read
  the local file.
\<close>

theorem C5_counterexample:
  "responseReason
     \<lparr>errCode = Some ''ERR_BAD_REQUEST'',
      message = ''Request failed with status code 400'',
      response = Some \<lparr>status = 400, respData = Some \<lparr>reason = Some []\<rparr>\<rparr>\<rparr> = Some []
   \<and> getResourceContents
     \<lparr>access = (\<lambda>p. False),
      get = (\<lambda>url headers. Rejected
               \<lparr>errCode = Some ''ERR_BAD_REQUEST'',
                message = ''Request failed with status code 400'',
                response = Some \<lparr>status = 400, respData = Some \<lparr>reason = Some []\<rparr>\<rparr>\<rparr>),
      readJsonFile = (\<lambda>p known. if known then Inr ''local document'' else Inl ''FILE_NOT_FOUND''),
      transformWorkspaceCollection = Inr,
      transformWorkspaceEnvironment = Inr\<rparr>
     ''abc123'' (Some ''tok'') None CollectionResource =
   ([FsAccess ''abc123'',
     AxiosGet ''https://api.hoppscotch.io/v1/access-tokens/collection/abc123''
              [(''Authorization'', ''Bearer tok'')],
     ReadJsonFile ''abc123'' False],
    Inl (ReaderError ''FILE_NOT_FOUND''))
   \<and> snd (getResourceContents
     \<lparr>access = (\<lambda>p. False),
      get = (\<lambda>url headers. Rejected
               \<lparr>errCode = Some ''ERR_BAD_REQUEST'',
                message = ''Request failed with status code 400'',
                response = Some \<lparr>status = 400, respData = Some \<lparr>reason = Some []\<rparr>\<rparr>\<rparr>),
      readJsonFile = (\<lambda>p known. if known then Inr ''local document'' else Inl ''FILE_NOT_FOUND''),
      transformWorkspaceCollection = Inr,
      transformWorkspaceEnvironment = Inr\<rparr>
     ''abc123'' (Some ''tok'') None CollectionResource) \<noteq>
    Inl (CLIError \<lparr>code = [], data = Some ''abc123''\<rparr>)"
  by (simp add: getResourceContents_def tryRemote_def catchRemote_def readLocal_def truthy_def
      responseStatus_def responseReason_def requestUrl_def requestHeaders_def orElse_def
      endsWith_def interpolate_def)

text \<open>
  C7 (amended). When the remote step runs and \<open>axios.get\<close> rejects with the code
  \<open>ECONNREFUSED\<close>, the function throws \<open>SERVER_CONNECTION_REFUSED\<close> and never calls
  \<open>readJsonFile\<close>. The data of the error is the \<open>serverUrl\<close> argument as the caller passed
  it: \<open>undefined\<close> when the caller omitted it, although the request went to the default
  server URL.
\<close>

theorem C7_connection_refused_is_fatal:
  assumes "truthy accessToken" "\<not> access w pathOrId"
      and "get w (requestUrl serverUrl resourceType pathOrId) (requestHeaders accessToken) =
             Rejected err"
      and "errCode err = Some ''ECONNREFUSED''"
  shows "getResourceContents w pathOrId accessToken serverUrl resourceType =
     ([FsAccess pathOrId,
       AxiosGet (requestUrl serverUrl resourceType pathOrId) (requestHeaders accessToken)],
      Inl (CLIError \<lparr>code = ''SERVER_CONNECTION_REFUSED'', data = serverUrl\<rparr>))"
  using assms(1,2) tryRemote_Rejected [OF assms(3)] catchRemote_refused [OF assms(4)]
  by (rule remote_throws)

text \<open>
  A refused connection to a server URL the caller gave.
\<close>

theorem C7_witness:
  "getResourceContents
     \<lparr>access = (\<lambda>p. False),
      get = (\<lambda>url headers. Rejected \<lparr>errCode = Some ''ECONNREFUSED'',
                                       message = ''connect ECONNREFUSED'', response = None\<rparr>),
      readJsonFile = (\<lambda>p known. if known then Inr ''local document'' else Inl ''FILE_NOT_FOUND''),
      transformWorkspaceCollection = Inr,
      transformWorkspaceEnvironment = Inr\<rparr>
     ''abc123'' (Some ''tok'') (Some ''http://localhost:3170'') CollectionResource =
   ([FsAccess ''abc123'',
     AxiosGet ''http://localhost:3170/v1/access-tokens/collection/abc123''
              [(''Authorization'', ''Bearer tok'')]],
    Inl (CLIError \<lparr>code = ''SERVER_CONNECTION_REFUSED'',
                   data = Some ''http://localhost:3170''\<rparr>))"
  using C7_connection_refused_is_fatal
    [of "Some ''tok''"
        "\<lparr>access = (\<lambda>p. False),
      get = (\<lambda>url headers. Rejected \<lparr>errCode = Some ''ECONNREFUSED'',
                                       message = ''connect ECONNREFUSED'', response = None\<rparr>),
      readJsonFile = (\<lambda>p known. if known then Inr ''local document'' else Inl ''FILE_NOT_FOUND''),
      transformWorkspaceCollection = Inr,
      transformWorkspaceEnvironment = Inr\<rparr>"
        "''abc123''" "Some ''http://localhost:3170''" CollectionResource
        "\<lparr>errCode = Some ''ECONNREFUSED'',
          message = ''connect ECONNREFUSED'', response = None\<rparr>"]
  by (simp add: truthy_def requestUrl_def requestHeaders_def orElse_def endsWith_def
      interpolate_def)

text \<open>
  C7 as stated says that the error carries the server URL also when the caller omitted
  \<open>serverUrl\<close> and the default was used. With \<open>serverUrl\<close> omitted the request goes to
  \<open>https://api.hoppscotch.io\<close>, and the data of the error is \<open>undefined\<close>, not that URL.
\<close>

theorem C7_counterexample:
  "getResourceContents
     \<lparr>access = (\<lambda>p. False),
      get = (\<lambda>url headers. Rejected \<lparr>errCode = Some ''ECONNREFUSED'',
                                       message = ''connect ECONNREFUSED'', response = None\<rparr>),
      readJsonFile = (\<lambda>p known. if known then Inr ''local document'' else Inl ''FILE_NOT_FOUND''),
      transformWorkspaceCollection = Inr,
      transformWorkspaceEnvironment = Inr\<rparr>
     ''abc123'' (Some ''tok'') None CollectionResource =
   ([FsAccess ''abc123'',
     AxiosGet ''https://api.hoppscotch.io/v1/access-tokens/collection/abc123''
              [(''Authorization'', ''Bearer tok'')]],
    Inl (CLIError \<lparr>code = ''SERVER_CONNECTION_REFUSED'', data = None\<rparr>))
   \<and> snd (getResourceContents
     \<lparr>access = (\<lambda>p. False),
      get = (\<lambda>url headers. Rejected \<lparr>errCode = Some ''ECONNREFUSED'',
                                       message = ''connect ECONNREFUSED'', response = None\<rparr>),
      readJsonFile = (\<lambda>p known. if known then Inr ''local document'' else Inl ''FILE_NOT_FOUND''),
      transformWorkspaceCollection = Inr,
      transformWorkspaceEnvironment = Inr\<rparr>
     ''abc123'' (Some ''tok'') None CollectionResource) \<noteq>
    Inl (CLIError \<lparr>code = ''SERVER_CONNECTION_REFUSED'',
                   data = Some ''https://api.hoppscotch.io''\<rparr>)"
  by (simp add: getResourceContents_def tryRemote_def catchRemote_def truthy_def
      requestUrl_def requestHeaders_def orElse_def endsWith_def interpolate_def)

text \<open>
  C6 (amended). When the remote step runs and \<open>axios.get\<close> rejects with the code
  \<open>ERR_INVALID_URL\<close> (a malformed URL) or \<open>ENOTFOUND\<close> (a DNS failure) or with a response
  of status 404, or resolves with a \<open>content-type\<close> header that is present and does not
  contain \<open>application/json\<close>, the function throws \<open>INVALID_SERVER_URL\<close> and never calls
  \<open>readJsonFile\<close>. The data of the error is the \<open>serverUrl\<close> argument as the caller passed
  it: \<open>undefined\<close> when the caller omitted it, although the request went to the default
  server URL. An error that carries an HTTP response was not refused at connection, so
  in the 404 case its code is not \<open>ECONNREFUSED\<close>, which the catch block tests first.
  Nothing is said here of a response without a \<open>content-type\<close> header.
\<close>

theorem C6_invalid_server_url_is_fatal:
  assumes "truthy accessToken" "\<not> access w pathOrId"
      and "(\<exists>err. get w (requestUrl serverUrl resourceType pathOrId) (requestHeaders accessToken) =
                    Rejected err \<and>
                  (errCode err = Some ''ERR_INVALID_URL'' \<or>
                   errCode err = Some ''ENOTFOUND'' \<or>
                   responseStatus err = Some 404 \<and> errCode err \<noteq> Some ''ECONNREFUSED''))
           \<or> (\<exists>rawData headers contentType.
                  get w (requestUrl serverUrl resourceType pathOrId) (requestHeaders accessToken) =
                    Fulfilled rawData headers \<and>
                  headers ''content-type'' = Some contentType \<and>
                  \<not> includesStr contentType ''application/json'')"
  shows "getResourceContents w pathOrId accessToken serverUrl resourceType =
     ([FsAccess pathOrId,
       AxiosGet (requestUrl serverUrl resourceType pathOrId) (requestHeaders accessToken)],
      Inl (CLIError \<lparr>code = ''INVALID_SERVER_URL'', data = serverUrl\<rparr>))"
proof -
  from assms(3) obtain err where
    failed: "tryRemote w pathOrId accessToken serverUrl resourceType = Inl err" and
    notRefused: "errCode err \<noteq> Some ''ECONNREFUSED''" and
    kind: "message err = ''INVALID_CONTENT_TYPE'' \<or> errCode err = Some ''ERR_INVALID_URL'' \<or>
           errCode err = Some ''ENOTFOUND'' \<or> responseStatus err = Some 404"
  proof (elim disjE exE conjE)
    fix err
    assume "get w (requestUrl serverUrl resourceType pathOrId) (requestHeaders accessToken) =
              Rejected err"
       and "errCode err = Some ''ERR_INVALID_URL''"
    then show thesis using that [of err] by (simp add: tryRemote_Rejected)
  next
    fix err
    assume "get w (requestUrl serverUrl resourceType pathOrId) (requestHeaders accessToken) =
              Rejected err"
       and "errCode err = Some ''ENOTFOUND''"
    then show thesis using that [of err] by (simp add: tryRemote_Rejected)
  next
    fix err
    assume "get w (requestUrl serverUrl resourceType pathOrId) (requestHeaders accessToken) =
              Rejected err"
       and "responseStatus err = Some 404" and "errCode err \<noteq> Some ''ECONNREFUSED''"
    then show thesis using that [of err] by (simp add: tryRemote_Rejected)
  next
    fix rawData headers contentType
    assume "get w (requestUrl serverUrl resourceType pathOrId) (requestHeaders accessToken) =
              Fulfilled rawData headers"
       and "headers ''content-type'' = Some contentType"
       and "\<not> includesStr contentType ''application/json''"
    then have "tryRemote w pathOrId accessToken serverUrl resourceType =
                 Inl (newError ''INVALID_CONTENT_TYPE'')"
      by (rule tryRemote_wrong_content_type)
    then show thesis using that [of "newError ''INVALID_CONTENT_TYPE''"]
      by (simp add: newError_def)
  qed
  from notRefused kind
  have "catchRemote err pathOrId accessToken serverUrl =
          Some \<lparr>code = ''INVALID_SERVER_URL'', data = serverUrl\<rparr>"
    by (rule catchRemote_invalid_url)
  with assms(1,2) failed show ?thesis by (rule remote_throws)
qed

text \<open>
  Scenario D of the specification: no local file, a token, and a 404 answer.
\<close>

theorem C6_witness:
  "getResourceContents
     \<lparr>access = (\<lambda>p. False),
      get = (\<lambda>url headers. Rejected
               \<lparr>errCode = Some ''ERR_BAD_REQUEST'',
                message = ''Request failed with status code 404'',
                response = Some \<lparr>status = 404, respData = None\<rparr>\<rparr>),
      readJsonFile = (\<lambda>p known. if known then Inr ''local document'' else Inl ''FILE_NOT_FOUND''),
      transformWorkspaceCollection = Inr,
      transformWorkspaceEnvironment = Inr\<rparr>
     ''abc123'' (Some ''tok'') (Some ''https://example.com/'') EnvironmentResource =
   ([FsAccess ''abc123'',
     AxiosGet ''https://example.com/v1/access-tokens/environment/abc123''
              [(''Authorization'', ''Bearer tok'')]],
    Inl (CLIError \<lparr>code = ''INVALID_SERVER_URL'', data = Some ''https://example.com/''\<rparr>))"
  using C6_invalid_server_url_is_fatal
    [of "Some ''tok''"
        "\<lparr>access = (\<lambda>p. False),
      get = (\<lambda>url headers. Rejected
               \<lparr>errCode = Some ''ERR_BAD_REQUEST'',
                message = ''Request failed with status code 404'',
                response = Some \<lparr>status = 404, respData = None\<rparr>\<rparr>),
      readJsonFile = (\<lambda>p known. if known then Inr ''local document'' else Inl ''FILE_NOT_FOUND''),
      transformWorkspaceCollection = Inr,
      transformWorkspaceEnvironment = Inr\<rparr>"
        "''abc123''" "Some ''https://example.com/''" EnvironmentResource]
  by (simp add: truthy_def responseStatus_def requestUrl_def requestHeaders_def orElse_def
      endsWith_def interpolate_def)

text \<open>
  C6 as stated says that the error carries the server URL, and that every response
  whose content type is not JSON is answered with \<open>INVALID_SERVER_URL\<close>. With \<open>serverUrl\<close>
  omitted and a 404 answer from the default server, the data of the error is
  \<open>undefined\<close>, not that server's URL. And an answer of status 502 with an HTML error
  page is a rejection of \<open>axios.get\<close>, so the test of the content type in the try block
  is never reached: the catch block classifies the error as nothing, no
  \<open>INVALID_SERVER_URL\<close> is thrown, and the function reads the local file.
\<close>

theorem C6_counterexample:
  "getResourceContents
     \<lparr>access = (\<lambda>p. False),
      get = (\<lambda>url headers. Rejected
               \<lparr>errCode = Some ''ERR_BAD_REQUEST'',
                message = ''Request failed with status code 404'',
                response = Some \<lparr>status = 404, respData = None\<rparr>\<rparr>),
      readJsonFile = (\<lambda>p known. if known then Inr ''local document'' else Inl ''FILE_NOT_FOUND''),
      transformWorkspaceCollection = Inr,
      transformWorkspaceEnvironment = Inr\<rparr>
     ''abc123'' (Some ''tok'') None CollectionResource =
   ([FsAccess ''abc123'',
     AxiosGet ''https://api.hoppscotch.io/v1/access-tokens/collection/abc123''
              [(''Authorization'', ''Bearer tok'')]],
    Inl (CLIError \<lparr>code = ''INVALID_SERVER_URL'', data = None\<rparr>))
   \<and> snd (getResourceContents
     \<lparr>access = (\<lambda>p. False),
      get = (\<lambda>url headers. Rejected
               \<lparr>errCode = Some ''ERR_BAD_REQUEST'',
                message = ''Request failed with status code 404'',
                response = Some \<lparr>status = 404, respData = None\<rparr>\<rparr>),
      readJsonFile = (\<lambda>p known. if known then Inr ''local document'' else Inl ''FILE_NOT_FOUND''),
      transformWorkspaceCollection = Inr,
      transformWorkspaceEnvironment = Inr\<rparr>
     ''abc123'' (Some ''tok'') None CollectionResource) \<noteq>
    Inl (CLIError \<lparr>code = ''INVALID_SERVER_URL'',
                   data = Some ''https://api.hoppscotch.io''\<rparr>)
   \<and> getResourceContents
     \<lparr>access = (\<lambda>p. False),
      get = (\<lambda>url headers. Rejected
               \<lparr>errCode = Some ''ERR_BAD_RESPONSE'',
                message = ''Request failed with status code 502'',
                response = Some \<lparr>status = 502, respData = None\<rparr>\<rparr>),
      readJsonFile = (\<lambda>p known. if known then Inr ''local document'' else Inl ''FILE_NOT_FOUND''),
      transformWorkspaceCollection = Inr,
      transformWorkspaceEnvironment = Inr\<rparr>
     ''abc123'' (Some ''tok'') (Some ''https://example.com'') CollectionResource =
   ([FsAccess ''abc123'',
     AxiosGet ''https://example.com/v1/access-tokens/collection/abc123''
              [(''Authorization'', ''Bearer tok'')],
     ReadJsonFile ''abc123'' False],
    Inl (ReaderError ''FILE_NOT_FOUND''))
   \<and> snd (getResourceContents
     \<lparr>access = (\<lambda>p. False),
      get = (\<lambda>url headers. Rejected
               \<lparr>errCode = Some ''ERR_BAD_RESPONSE'',
                message = ''Request failed with status code 502'',
                response = Some \<lparr>status = 502, respData = None\<rparr>\<rparr>),
      readJsonFile = (\<lambda>p known. if known then Inr ''local document'' else Inl ''FILE_NOT_FOUND''),
      transformWorkspaceCollection = Inr,
      transformWorkspaceEnvironment = Inr\<rparr>
     ''abc123'' (Some ''tok'') (Some ''https://example.com'') CollectionResource) \<noteq>
    Inl (CLIError \<lparr>code = ''INVALID_SERVER_URL'', data = Some ''https://example.com''\<rparr>)"
  by (simp add: getResourceContents_def tryRemote_def catchRemote_def readLocal_def truthy_def
      responseStatus_def responseReason_def requestUrl_def requestHeaders_def orElse_def
      endsWith_def interpolate_def)

subsection \<open>The request\<close>

lemma endsWith_slash: "h \<noteq> [] \<Longrightarrow> endsWith h ''/'' = (last h = CHR ''/'')"
  by (cases h rule: rev_cases) (auto simp add: endsWith_def)

lemma requestUrl_explicit:
  assumes "base = (case serverUrl of
                     None \<Rightarrow> ''https://api.hoppscotch.io''
                   | Some s \<Rightarrow> if s = [] then ''https://api.hoppscotch.io'' else s)"
  shows "requestUrl serverUrl resourceType pathOrId =
     base @ (if last base = CHR ''/'' then [] else ''/'') @ ''v1/access-tokens/'' @
     (case resourceType of
        CollectionResource \<Rightarrow> ''collection''
      | EnvironmentResource \<Rightarrow> ''environment'') @ ''/'' @ pathOrId"
proof -
  have base: "orElse serverUrl ''https://api.hoppscotch.io'' = base"
    using assms by (simp add: orElse_def split: option.splits)
  have "base \<noteq> []" using assms by (simp split: option.splits)
  then have "endsWith base ''/'' = (last base = CHR ''/'')" by (rule endsWith_slash)
  then show ?thesis
    unfolding requestUrl_def base Let_def by (cases resourceType) simp_all
qed

lemma remote_calls:
  assumes "truthy accessToken" "\<not> access w pathOrId"
  shows "filter isAxiosGet (fst (getResourceContents w pathOrId accessToken serverUrl resourceType)) =
     [AxiosGet (requestUrl serverUrl resourceType pathOrId) (requestHeaders accessToken)]"
  using remote_branch [OF assms, of serverUrl resourceType]
  by (simp add: readLocal_def split: sum.splits option.splits)

text \<open>
  C9 (amended). When the remote step runs (a non-empty token and no local file), the
  function makes exactly one \<open>axios.get\<close> call. Its URL is the concatenation of the base
  (\<open>serverUrl\<close> when it is given and not empty, the default \<open>https://api.hoppscotch.io\<close>
  otherwise), a \<open>/\<close> exactly when the base does not end in one, \<open>v1/access-tokens/\<close>,
  \<open>collection\<close> or \<open>environment\<close> according to \<open>resourceType\<close>, a \<open>/\<close>, and \<open>pathOrId\<close>.
  Its headers are \<open>Authorization: Bearer\<close> followed by the access token.
\<close>

theorem C9_request_url_and_header:
  assumes "accessToken = Some tok" "tok \<noteq> []" "\<not> access w pathOrId"
      and "base = (case serverUrl of
                     None \<Rightarrow> ''https://api.hoppscotch.io''
                   | Some s \<Rightarrow> if s = [] then ''https://api.hoppscotch.io'' else s)"
  shows "filter isAxiosGet (fst (getResourceContents w pathOrId accessToken serverUrl resourceType)) =
     [AxiosGet
        (base @ (if last base = CHR ''/'' then [] else ''/'') @ ''v1/access-tokens/'' @
         (case resourceType of
            CollectionResource \<Rightarrow> ''collection''
          | EnvironmentResource \<Rightarrow> ''environment'') @ ''/'' @ pathOrId)
        [(''Authorization'', ''Bearer '' @ tok)]]"
proof -
  have "truthy accessToken" using assms(1,2) by (simp add: truthy_def)
  then have "filter isAxiosGet
       (fst (getResourceContents w pathOrId accessToken serverUrl resourceType)) =
     [AxiosGet (requestUrl serverUrl resourceType pathOrId) (requestHeaders accessToken)]"
    using assms(3) by (rule remote_calls)
  moreover have "requestHeaders accessToken = [(''Authorization'', ''Bearer '' @ tok)]"
    using assms(1) by (simp add: requestHeaders_def interpolate_def)
  ultimately show ?thesis
    using requestUrl_explicit [OF assms(4), of resourceType pathOrId] by simp
qed

text \<open>
  A server URL with a trailing slash: no separator is added.
\<close>

theorem C9_witness:
  "filter isAxiosGet (fst (getResourceContents
     \<lparr>access = (\<lambda>p. False),
      get = (\<lambda>url headers. Fulfilled ''remote payload''
               [''content-type'' \<mapsto> ''application/json; charset=utf-8'']),
      readJsonFile = (\<lambda>p known. if known then Inr ''local document'' else Inl ''FILE_NOT_FOUND''),
      transformWorkspaceCollection = (\<lambda>raw. Inr (''collection of '' @ raw)),
      transformWorkspaceEnvironment = (\<lambda>raw. Inr (''environment of '' @ raw))\<rparr>
     ''abc123'' (Some ''tok'') (Some ''http://localhost:3170/'') EnvironmentResource)) =
   [AxiosGet ''http://localhost:3170/v1/access-tokens/environment/abc123''
             [(''Authorization'', ''Bearer tok'')]]"
  using C9_request_url_and_header
    [of "Some ''tok''" "''tok''"
        "\<lparr>access = (\<lambda>p. False),
      get = (\<lambda>url headers. Fulfilled ''remote payload''
               [''content-type'' \<mapsto> ''application/json; charset=utf-8'']),
      readJsonFile = (\<lambda>p known. if known then Inr ''local document'' else Inl ''FILE_NOT_FOUND''),
      transformWorkspaceCollection = (\<lambda>raw. Inr (''collection of '' @ raw)),
      transformWorkspaceEnvironment = (\<lambda>raw. Inr (''environment of '' @ raw))\<rparr>"
        "''abc123''" "''http://localhost:3170/''" "Some ''http://localhost:3170/''"
        EnvironmentResource]
  by simp

text \<open>
  C9 as stated puts nothing between the resource literal and \<open>pathOrId\<close>, and uses the
  default only when \<open>serverUrl\<close> is absent. The request of the code has a \<open>/\<close> there,
  so it differs from the stated concatenation; and with the empty string as
  \<open>serverUrl\<close> the request goes to the default server.
\<close>

theorem C9_counterexample:
  "getResourceContents
     \<lparr>access = (\<lambda>p. False),
      get = (\<lambda>url headers. Fulfilled ''remote payload''
               [''content-type'' \<mapsto> ''application/json; charset=utf-8'']),
      readJsonFile = (\<lambda>p known. if known then Inr ''local document'' else Inl ''FILE_NOT_FOUND''),
      transformWorkspaceCollection = (\<lambda>raw. Inr (''collection of '' @ raw)),
      transformWorkspaceEnvironment = (\<lambda>raw. Inr (''environment of '' @ raw))\<rparr>
     ''abc123'' (Some ''tok'') (Some ''https://api.hoppscotch.io'') CollectionResource =
   ([FsAccess ''abc123'',
     AxiosGet ''https://api.hoppscotch.io/v1/access-tokens/collection/abc123''
              [(''Authorization'', ''Bearer tok'')]],
    Inr ''collection of remote payload'')
   \<and> filter isAxiosGet (fst (getResourceContents
     \<lparr>access = (\<lambda>p. False),
      get = (\<lambda>url headers. Fulfilled ''remote payload''
               [''content-type'' \<mapsto> ''application/json; charset=utf-8'']),
      readJsonFile = (\<lambda>p known. if known then Inr ''local document'' else Inl ''FILE_NOT_FOUND''),
      transformWorkspaceCollection = (\<lambda>raw. Inr (''collection of '' @ raw)),
      transformWorkspaceEnvironment = (\<lambda>raw. Inr (''environment of '' @ raw))\<rparr>
     ''abc123'' (Some ''tok'') (Some ''https://api.hoppscotch.io'') CollectionResource)) \<noteq>
     [AxiosGet (''https://api.hoppscotch.io'' @ ''/'' @ ''v1/access-tokens/'' @ ''collection'' @
                ''abc123'')
               [(''Authorization'', ''Bearer tok'')]]
   \<and> filter isAxiosGet (fst (getResourceContents
     \<lparr>access = (\<lambda>p. False),
      get = (\<lambda>url headers. Fulfilled ''remote payload''
               [''content-type'' \<mapsto> ''application/json; charset=utf-8'']),
      readJsonFile = (\<lambda>p known. if known then Inr ''local document'' else Inl ''FILE_NOT_FOUND''),
      transformWorkspaceCollection = (\<lambda>raw. Inr (''collection of '' @ raw)),
      transformWorkspaceEnvironment = (\<lambda>raw. Inr (''environment of '' @ raw))\<rparr>
     ''abc123'' (Some ''tok'') (Some []) CollectionResource)) =
     [AxiosGet ''https://api.hoppscotch.io/v1/access-tokens/collection/abc123''
               [(''Authorization'', ''Bearer tok'')]]"
  by (simp add: getResourceContents_def tryRemote_def truthy_def requestUrl_def
      requestHeaders_def orElse_def endsWith_def interpolate_def)

subsection \<open>Other outcomes of the remote step\<close>

text \<open>
  A response without a \<open>content-type\<close> header: \<open>headers["content-type"]\<close> is
  \<open>undefined\<close>, the call of \<open>.includes\<close> throws a TypeError inside the try block, the
  catch block classifies it as nothing, and the function reads the local file.
\<close>

lemma missing_content_type_falls_back:
  assumes "truthy accessToken" "\<not> access w pathOrId"
      and "get w (requestUrl serverUrl resourceType pathOrId) (requestHeaders accessToken) =
             Fulfilled rawData headers"
      and "headers ''content-type'' = None"
  shows "getResourceContents w pathOrId accessToken serverUrl resourceType =
     readLocal w pathOrId False
       [FsAccess pathOrId,
        AxiosGet (requestUrl serverUrl resourceType pathOrId) (requestHeaders accessToken)]"
proof -
  have "tryRemote w pathOrId accessToken serverUrl resourceType = Inl typeErrorOfUndefined"
    using assms(3,4) by (simp add: tryRemote_def)
  moreover have "catchRemote typeErrorOfUndefined pathOrId accessToken serverUrl = None"
    by (simp add: catchRemote_def typeErrorOfUndefined_def newError_def responseStatus_def
        responseReason_def)
  ultimately show ?thesis
    using remote_branch [OF assms(1,2), of serverUrl resourceType] by simp
qed

text \<open>
  A successful remote step returns the transformed document, and the file is not read.
\<close>

lemma remote_success:
  assumes "truthy accessToken" "\<not> access w pathOrId"
      and "tryRemote w pathOrId accessToken serverUrl resourceType = Inr contents"
  shows "getResourceContents w pathOrId accessToken serverUrl resourceType =
     ([FsAccess pathOrId,
       AxiosGet (requestUrl serverUrl resourceType pathOrId) (requestHeaders accessToken)],
      Inr contents)"
  using remote_branch [OF assms(1,2), of serverUrl resourceType] assms(3) by simp

end
